theory Spec2Isabelle
  imports Main "HOL-Library.AList"
begin

section \<open>JavaScript values\<close>

text \<open>
  The values that flow through \<^verbatim>\<open>lib/WPRequest.js\<close>: configuration entries, URL
  segments, the \<^verbatim>\<open>err\<close> and \<^verbatim>\<open>result\<close> handed over by the transport, response
  bodies and headers. An object is the list of its own properties. A number is an
  integer, and stands for a JavaScript number as long as it is a safe integer (at
  most \<open>2 ^ 53 - 1\<close> in absolute value): every such integer is a double, and the
  conversions below are JavaScript's on that range.
\<close>

datatype jsval =
    JUndefined
  | JNull
  | JBool bool
  | JNum int
  | JStr string
  | JObj "(string \<times> jsval) list"

text \<open>What a \<^verbatim>\<open>throw\<close> carries: the two built-in error classes the module can
  raise, with their message, and anything a caller's callback throws.\<close>

datatype exn =
    Error string
  | TypeError string
  | Thrown jsval

text \<open>ToBoolean, as used by \<^verbatim>\<open>||\<close> and \<^verbatim>\<open>if\<close>.\<close>

fun truthy :: "jsval \<Rightarrow> bool" where
  "truthy JUndefined = False"
| "truthy JNull = False"
| "truthy (JBool b) = b"
| "truthy (JNum n) = (n \<noteq> 0)"
| "truthy (JStr s) = (s \<noteq> [])"
| "truthy (JObj fs) = True"

text \<open>Decimal digits of a natural number, most significant first.\<close>

fun digits :: "nat \<Rightarrow> string" where
  "digits n =
     (if n < 10 then [''0123456789'' ! n]
      else digits (n div 10) @ [''0123456789'' ! (n mod 10)])"

declare digits.simps [simp del]

text \<open>
  ToString, as applied by \<^verbatim>\<open>+\<close> when the other operand is a string. A plain
  object prints as \<^verbatim>\<open>[object Object]\<close>. A safe integer prints as its decimal
  digits; JavaScript prints larger numbers rounded, and from \<^verbatim>\<open>1e21\<close> on with an
  exponent, which is not modelled: \<open>printable\<close> below marks the values whose
  conversion is the one given here.
\<close>

fun js_to_string :: "jsval \<Rightarrow> string" where
  "js_to_string JUndefined = ''undefined''"
| "js_to_string JNull = ''null''"
| "js_to_string (JBool b) = (if b then ''true'' else ''false'')"
| "js_to_string (JNum n) = (if n < 0 then ''-'' @ digits (nat (- n)) else digits (nat n))"
| "js_to_string (JStr s) = s"
| "js_to_string (JObj fs) = ''[object Object]''"



text \<open>
  Property read \<^verbatim>\<open>v.name\<close>. Reading a property of \<^verbatim>\<open>undefined\<close> or \<^verbatim>\<open>null\<close>
  throws a TypeError; a property an object does not have reads as \<^verbatim>\<open>undefined\<close>,
  and so do the names used here (\<^verbatim>\<open>body\<close>, \<^verbatim>\<open>headers\<close>, \<^verbatim>\<open>error\<close>) on a
  boolean, a number or a string.
\<close>

fun get_prop :: "jsval \<Rightarrow> string \<Rightarrow> exn + jsval" where
  "get_prop JUndefined name = Inl (TypeError name)"
| "get_prop JNull name = Inl (TypeError name)"
| "get_prop (JObj fs) name =
     Inr (case map_of fs name of Some v \<Rightarrow> v | None \<Rightarrow> JUndefined)"
| "get_prop v name = Inr JUndefined"

text \<open>\<^verbatim>\<open>String.prototype.toLowerCase\<close> on ASCII text.\<close>

definition toLowerChar :: "char \<Rightarrow> char" where
  "toLowerChar c =
     (case map_of (zip ''ABCDEFGHIJKLMNOPQRSTUVWXYZ'' ''abcdefghijklmnopqrstuvwxyz'') c of
        Some l \<Rightarrow> l
      | None \<Rightarrow> c)"

definition toLowerCase :: "string \<Rightarrow> string" where
  "toLowerCase s = map toLowerChar s"

text \<open>\<^verbatim>\<open>Array.prototype.join\<close> on an array of strings.\<close>

fun join :: "string \<Rightarrow> string list \<Rightarrow> string" where
  "join sep [] = []"
| "join sep [x] = x"
| "join sep (x # y # ys) = x @ sep @ join sep (y # ys)"

section \<open>The request object\<close>

text \<open>
  \<^verbatim>\<open>this._options\<close>: the configuration hash. An entry that was not supplied reads
  as \<^verbatim>\<open>undefined\<close>.
\<close>

record options =
  endpoint :: jsval
  username :: jsval
  password :: jsval

definition empty_options :: options where
  "empty_options = \<lparr>endpoint = JUndefined, username = JUndefined, password = JUndefined\<rparr>"

text \<open>
  A \<^verbatim>\<open>WPRequest\<close> instance. The endpoint handlers inherit from it and add their own
  fields, so the methods below take any extension of this record.
\<close>

record wprequest =
  options :: options
  supportedMethods :: "string list"

text \<open>The constructor: \<^verbatim>\<open>this._options = options || {}\<close>, and the full verb list.\<close>

definition WPRequest :: "options option \<Rightarrow> wprequest" where
  "WPRequest opts =
     \<lparr>options = (case opts of Some given \<Rightarrow> given | None \<Rightarrow> empty_options),
      supportedMethods = [''head'', ''get'', ''put'', ''post'', ''patch'', ''delete'']\<rparr>"

text \<open>
  \<^verbatim>\<open>_checkMethodSupport\<close>: \<^verbatim>\<open>indexOf\<close> of the lowercased method name in
  \<^verbatim>\<open>_supportedMethods\<close>; \<^verbatim>\<open>-1\<close> throws, anything else returns \<^verbatim>\<open>true\<close>.
\<close>

definition checkMethodSupport :: "string \<Rightarrow> 'a wprequest_scheme \<Rightarrow> exn + bool" where
  "checkMethodSupport method this =
     (if toLowerCase method \<notin> set (supportedMethods this)
      then Inl (Error (''Unsupported method; supported methods are: '' @
                       join '', '' (supportedMethods this)))
      else Inr True)"

text \<open>\<^verbatim>\<open>generateRequestUri\<close> of the base class: the configured endpoint, as it is.\<close>

definition generateRequestUri :: "'a wprequest_scheme \<Rightarrow> jsval" where
  "generateRequestUri this = endpoint (options this)"

section \<open>The transport adapter\<close>

text \<open>
  The HTTP client (superagent) is an external collaborator. A request builder is the
  record of what was asked of it: \<^verbatim>\<open>agent.get(url)\<close> and its siblings create one,
  \<^verbatim>\<open>.set(name, value)\<close> stores a header, \<^verbatim>\<open>.send(data)\<close> attaches the payload.
  The field \<open>headers\<close> holds the headers set through \<^verbatim>\<open>.set\<close>; what the client
  adds of its own when it sends the request is not part of the record.
\<close>

record request =
  http_method :: string
  url :: jsval
  headers :: "(string \<times> string) list"
  payload :: "jsval option"

definition agent_request :: "string \<Rightarrow> jsval \<Rightarrow> request" where
  "agent_request m u = \<lparr>http_method = m, url = u, headers = [], payload = None\<rparr>"

definition agent_get :: "jsval \<Rightarrow> request" where
  "agent_get u = agent_request ''GET'' u"

definition agent_post :: "jsval \<Rightarrow> request" where
  "agent_post u = agent_request ''POST'' u"

definition agent_put :: "jsval \<Rightarrow> request" where
  "agent_put u = agent_request ''PUT'' u"

definition agent_del :: "jsval \<Rightarrow> request" where
  "agent_del u = agent_request ''DELETE'' u"

definition agent_head :: "jsval \<Rightarrow> request" where
  "agent_head u = agent_request ''HEAD'' u"

definition set_header :: "string \<Rightarrow> string \<Rightarrow> request \<Rightarrow> request" where
  "set_header name v r = r\<lparr>headers := AList.update name v (headers r)\<rparr>"

definition send :: "jsval \<Rightarrow> request \<Rightarrow> request" where
  "send d r = r\<lparr>payload := Some d\<rparr>"

section \<open>Callbacks and promises\<close>

text \<open>
  What can be observed of one request once the transport has answered: the caller's
  callback being invoked with its two arguments, and the promise being settled.
\<close>

datatype event =
    Called jsval jsval
  | Resolved jsval
  | Rejected jsval

text \<open>
  A function that is run for its effect is modelled by what running it leaves behind:
  the events, in order, and the exception that ended it, if any.
\<close>

type_synonym effect = "event list \<times> exn option"

text \<open>
  The \<^verbatim>\<open>callback\<close> argument of a verb method: absent (or anything that is not a
  function), or a function of the caller, which is given by what it throws on each
  pair of arguments (\<open>None\<close> when it returns).
\<close>

datatype callback =
    NoCallback
  | Fn "jsval \<Rightarrow> jsval \<Rightarrow> exn option"

definition noop :: "jsval \<Rightarrow> jsval \<Rightarrow> effect" where
  "noop a b = ([], None)"

definition identity :: "jsval \<Rightarrow> exn + jsval" where
  "identity v = Inr v"

definition ensureFunction :: "callback \<Rightarrow> jsval \<Rightarrow> jsval \<Rightarrow> effect" where
  "ensureFunction fn =
     (case fn of
        Fn f \<Rightarrow> (\<lambda>a b. ([Called a b], f a b))
      | NoCallback \<Rightarrow> noop)"

definition returnBody :: "jsval \<Rightarrow> exn + jsval" where
  "returnBody result = get_prop result ''body''"

definition returnHeaders :: "jsval \<Rightarrow> exn + jsval" where
  "returnHeaders result = get_prop result ''headers''"

text \<open>
  The function handed to \<^verbatim>\<open>request.end\<close> (lines 88 to 99): the arguments of the
  callback are evaluated, the callback is called, and then the promise is rejected
  with \<^verbatim>\<open>err || result.error\<close> or resolved with \<^verbatim>\<open>transform( result )\<close>. An
  exception anywhere leaves the function, so that nothing after it happens.
\<close>

definition end_handler ::
  "(jsval \<Rightarrow> jsval \<Rightarrow> effect) \<Rightarrow> (jsval \<Rightarrow> exn + jsval) \<Rightarrow> jsval \<Rightarrow> jsval \<Rightarrow> effect" where
  "end_handler callback transform err result =
     (case transform result of
        Inl e \<Rightarrow> ([], Some e)
      | Inr v \<Rightarrow>
          (case callback err v of
             (evs, Some e) \<Rightarrow> (evs, Some e)
           | (evs, None) \<Rightarrow>
               (if truthy err then (evs @ [Rejected err], None)
                else
                  (case get_prop result ''error'' of
                     Inl e \<Rightarrow> (evs, Some e)
                   | Inr re \<Rightarrow>
                       (if truthy re then (evs @ [Rejected re], None)
                        else
                          (case transform result of
                             Inl e \<Rightarrow> (evs, Some e)
                           | Inr v' \<Rightarrow> (evs @ [Resolved v'], None)))))))"

text \<open>
  A promise returned by \<^verbatim>\<open>invokeAndPromisify\<close>: the request that was submitted, and
  what its completion with \<^verbatim>\<open>(err, result)\<close> does.
\<close>

record promise =
  submitted :: request
  on_end :: "jsval \<Rightarrow> jsval \<Rightarrow> effect"

datatype jsret =
    RUndefined
  | RPromise promise

text \<open>
  The state a verb method runs in: the instance it is called on, and the requests
  submitted to the transport so far (\<^verbatim>\<open>request.end\<close> having been called on them).
\<close>

record 'a world =
  obj :: "'a wprequest_scheme"
  sent :: "request list"

text \<open>
  \<^verbatim>\<open>invokeAndPromisify\<close>. The executor of \<^verbatim>\<open>new Promise\<close> runs at once, so the
  request is submitted before the promise is returned.
\<close>

definition invokeAndPromisify ::
  "request \<Rightarrow> callback \<Rightarrow> (jsval \<Rightarrow> exn + jsval) option \<Rightarrow> 'a world \<Rightarrow> (exn + jsret) \<times> 'a world" where
  "invokeAndPromisify req callback transform w =
     (let callback' = ensureFunction callback;
          transform' = (case transform of Some t \<Rightarrow> t | None \<Rightarrow> identity)
      in (Inr (RPromise \<lparr>submitted = req, on_end = end_handler callback' transform'\<rparr>),
          w\<lparr>sent := sent w @ [req]\<rparr>))"

section \<open>HTTP methods\<close>

text \<open>
  Each verb method takes the \<^verbatim>\<open>generateRequestUri\<close> of the instance it is called on
  (the base one above, or the override of an endpoint handler) as its first argument.
  A \<^verbatim>\<open>throw\<close> is the result \<open>Inl\<close>, with the state as it was.
\<close>

definition get ::
  "('a wprequest_scheme \<Rightarrow> jsval) \<Rightarrow> callback \<Rightarrow> 'a world \<Rightarrow> (exn + jsret) \<times> 'a world" where
  "get uri callback w =
     (case checkMethodSupport ''get'' (obj w) of
        Inl e \<Rightarrow> (Inl e, w)
      | Inr ok \<Rightarrow>
          (let u = uri (obj w)
           in invokeAndPromisify (agent_get u) callback (Some returnBody) w))"

definition post ::
  "('a wprequest_scheme \<Rightarrow> jsval) \<Rightarrow> jsval \<Rightarrow> callback \<Rightarrow> 'a world \<Rightarrow> (exn + jsret) \<times> 'a world" where
  "post uri d callback w =
     (case checkMethodSupport ''post'' (obj w) of
        Inl e \<Rightarrow> (Inl e, w)
      | Inr ok \<Rightarrow>
          (let u = uri (obj w);
               auth = js_to_string (username (options (obj w))) @ '':'' @
                      js_to_string (password (options (obj w)));
               d' = (if truthy d then d else JObj []);
               req = send d' (set_header ''Authorization'' auth (agent_post u))
           in invokeAndPromisify req callback (Some returnBody) w))"

definition put ::
  "('a wprequest_scheme \<Rightarrow> jsval) \<Rightarrow> jsval \<Rightarrow> callback \<Rightarrow> 'a world \<Rightarrow> (exn + jsret) \<times> 'a world" where
  "put uri d callback w =
     (case checkMethodSupport ''put'' (obj w) of
        Inl e \<Rightarrow> (Inl e, w)
      | Inr ok \<Rightarrow>
          (let u = uri (obj w);
               auth = js_to_string (username (options (obj w))) @ '':'' @
                      js_to_string (password (options (obj w)));
               d' = (if truthy d then d else JObj []);
               req = send d' (set_header ''Authorization'' auth (agent_put u))
           in invokeAndPromisify req callback (Some returnBody) w))"

definition patch :: "callback \<Rightarrow> 'a world \<Rightarrow> (exn + jsret) \<times> 'a world" where
  "patch callback w =
     (case checkMethodSupport ''patch'' (obj w) of
        Inl e \<Rightarrow> (Inl e, w)
      | Inr ok \<Rightarrow>
          (let callback' = ensureFunction callback
           in (Inr RUndefined, w)))"

definition delete ::
  "('a wprequest_scheme \<Rightarrow> jsval) \<Rightarrow> callback \<Rightarrow> 'a world \<Rightarrow> (exn + jsret) \<times> 'a world" where
  "delete uri callback w =
     (case checkMethodSupport ''delete'' (obj w) of
        Inl e \<Rightarrow> (Inl e, w)
      | Inr ok \<Rightarrow>
          (let u = uri (obj w);
               auth = js_to_string (username (options (obj w))) @ '':'' @
                      js_to_string (password (options (obj w)));
               req = set_header ''Authorization'' auth (agent_del u)
           in invokeAndPromisify req callback (Some returnBody) w))"

definition head ::
  "('a wprequest_scheme \<Rightarrow> jsval) \<Rightarrow> callback \<Rightarrow> 'a world \<Rightarrow> (exn + jsret) \<times> 'a world" where
  "head uri callback w =
     (case checkMethodSupport ''head'' (obj w) of
        Inl e \<Rightarrow> (Inl e, w)
      | Inr ok \<Rightarrow>
          (let u = uri (obj w)
           in invokeAndPromisify (agent_head u) callback (Some returnHeaders) w))"

text \<open>The six verb methods under one name, for statements about all of them.\<close>

datatype verb = Get | Post | Put | Patch | Delete | Head

fun verb_name :: "verb \<Rightarrow> string" where
  "verb_name Get = ''get''"
| "verb_name Post = ''post''"
| "verb_name Put = ''put''"
| "verb_name Patch = ''patch''"
| "verb_name Delete = ''delete''"
| "verb_name Head = ''head''"

fun invoke ::
  "verb \<Rightarrow> ('a wprequest_scheme \<Rightarrow> jsval) \<Rightarrow> jsval \<Rightarrow> callback \<Rightarrow> 'a world \<Rightarrow> (exn + jsret) \<times> 'a world" where
  "invoke Get uri d callback w = get uri callback w"
| "invoke Post uri d callback w = post uri d callback w"
| "invoke Put uri d callback w = put uri d callback w"
| "invoke Patch uri d callback w = patch callback w"
| "invoke Delete uri d callback w = delete uri callback w"
| "invoke Head uri d callback w = head uri callback w"

section \<open>Endpoint handlers\<close>

text \<open>
  Modelled from the spec: \<^verbatim>\<open>lib/taxonomies.js\<close> is not among the sources; only its
  tests are. The instance adds the fields \<^verbatim>\<open>_id\<close>, \<^verbatim>\<open>_action\<close> and
  \<^verbatim>\<open>_actionId\<close>, all \<^verbatim>\<open>null\<close> at first, and narrows the permitted verbs to
  get and head.
\<close>

record taxonomies_request = wprequest +
  t_id :: jsval
  t_action :: jsval
  t_actionId :: jsval

definition TaxonomiesRequest :: "options option \<Rightarrow> taxonomies_request" where
  "TaxonomiesRequest opts =
     \<lparr>options = (case opts of Some given \<Rightarrow> given | None \<Rightarrow> empty_options),
      supportedMethods = [''get'', ''head''],
      t_id = JNull, t_action = JNull, t_actionId = JNull\<rparr>"

text \<open>
  Modelled from the spec: \<^verbatim>\<open>TaxonomiesRequest.prototype.terms\<close> (missing) sets the
  action field to \<^verbatim>\<open>terms\<close> and returns the instance.
\<close>

definition taxonomies_terms :: "taxonomies_request \<Rightarrow> taxonomies_request" where
  "taxonomies_terms this = this\<lparr>t_action := JStr ''terms''\<rparr>"

text \<open>
  Modelled from the spec: \<^verbatim>\<open>TaxonomiesRequest.prototype.id\<close> (missing) sets the
  resource identifier; once \<^verbatim>\<open>terms()\<close> has been called, a second call targets the
  term instead and sets the action-scoped identifier. Exactly one field changes.
\<close>

definition taxonomies_id :: "jsval \<Rightarrow> taxonomies_request \<Rightarrow> taxonomies_request" where
  "taxonomies_id v this =
     (if t_action this = JStr ''terms'' then this\<lparr>t_actionId := v\<rparr>
      else this\<lparr>t_id := v\<rparr>)"

text \<open>
  Modelled from the spec: \<^verbatim>\<open>TaxonomiesRequest.prototype.generateRequestUri\<close>
  (missing). The resource name follows the endpoint, then the id, the action and the
  action's id, each behind a slash and each left out when its field is \<^verbatim>\<open>null\<close>;
  the action's id only appears behind an action. The spec writes the composition with
  a slash between endpoint and resource name and, for the endpoint \<^verbatim>\<open>/wp-json/\<close>,
  requires \<^verbatim>\<open>/wp-json/taxonomies\<close> exactly, as the tests do; the model follows
  the required values, so the endpoint brings its own trailing slash.
\<close>

definition taxonomies_generateRequestUri :: "taxonomies_request \<Rightarrow> jsval" where
  "taxonomies_generateRequestUri this =
     JStr (js_to_string (endpoint (options this)) @ ''taxonomies'' @
           (if t_id this \<noteq> JNull then ''/'' @ js_to_string (t_id this) else []) @
           (if t_action this \<noteq> JNull
            then ''/'' @ js_to_string (t_action this) @
                 (if t_actionId this \<noteq> JNull then ''/'' @ js_to_string (t_actionId this)
                  else [])
            else []))"

text \<open>
  Modelled from the spec: \<^verbatim>\<open>lib/users.js\<close> is not among the sources; only its tests
  are, and they show the single field \<^verbatim>\<open>_id\<close>, \<^verbatim>\<open>null\<close> at first, and the
  permitted verbs get, head and post.
\<close>

record users_request = wprequest +
  u_id :: jsval

definition UsersRequest :: "options option \<Rightarrow> users_request" where
  "UsersRequest opts =
     \<lparr>options = (case opts of Some given \<Rightarrow> given | None \<Rightarrow> empty_options),
      supportedMethods = [''get'', ''head'', ''post''],
      u_id = JNull\<rparr>"

text \<open>
  Modelled from the spec: \<^verbatim>\<open>UsersRequest.prototype.id\<close> and
  \<^verbatim>\<open>UsersRequest.prototype.me\<close> (missing). Each sets one field and returns the
  instance. The \<^verbatim>\<open>me\<close> shortcut and an id exclude each other: both write the one
  segment that follows the resource name, so the later call replaces the earlier.
\<close>

definition users_id :: "jsval \<Rightarrow> users_request \<Rightarrow> users_request" where
  "users_id v this = this\<lparr>u_id := v\<rparr>"

definition users_me :: "users_request \<Rightarrow> users_request" where
  "users_me this = this\<lparr>u_id := JStr ''me''\<rparr>"

text \<open>
  Modelled from the spec: \<^verbatim>\<open>UsersRequest.prototype.generateRequestUri\<close> (missing),
  composed as for taxonomies: endpoint, resource name, and the id segment unless it
  is \<^verbatim>\<open>null\<close>.
\<close>

definition users_generateRequestUri :: "users_request \<Rightarrow> jsval" where
  "users_generateRequestUri this =
     JStr (js_to_string (endpoint (options this)) @ ''users'' @
           (if u_id this \<noteq> JNull then ''/'' @ js_to_string (u_id this) else []))"

text \<open>The configuration of the tests: \<^verbatim>\<open>_options = { endpoint: '/wp-json/' }\<close>.\<close>

definition wp_json :: options where
  "wp_json = \<lparr>endpoint = JStr ''/wp-json/'', username = JUndefined, password = JUndefined\<rparr>"

section \<open>Observing an invocation\<close>

text \<open>
  What the transport's answer \<^verbatim>\<open>(err, result)\<close> does to the outcome of a verb
  method: the effect of the promise's completion, or \<open>None\<close> when the method threw
  or returned no promise (nothing then waits for the transport).
\<close>

definition completion :: "(exn + jsret) \<times> 'a world \<Rightarrow> jsval \<Rightarrow> jsval \<Rightarrow> effect option" where
  "completion r err result =
     (case fst r of
        Inr (RPromise p) \<Rightarrow> Some (on_end p err result)
      | Inr RUndefined \<Rightarrow> None
      | Inl e \<Rightarrow> None)"

text \<open>
  A successful answer: \<^verbatim>\<open>err || result.error\<close> is falsy, where \<^verbatim>\<open>result\<close> is
  a response (not \<^verbatim>\<open>undefined\<close> or \<^verbatim>\<open>null\<close>).
\<close>

definition successful :: "jsval \<Rightarrow> jsval \<Rightarrow> bool" where
  "successful err result =
     (case get_prop result ''error'' of
        Inr re \<Rightarrow> \<not> truthy err \<and> \<not> truthy re
      | Inl e \<Rightarrow> False)"

text \<open>The arguments of the callback's invocations in a sequence of events.\<close>

fun calls :: "event list \<Rightarrow> (jsval \<times> jsval) list" where
  "calls [] = []"
| "calls (Called a b # evs) = (a, b) # calls evs"
| "calls (ev # evs) = calls evs"

text \<open>A callback that returns normally, whatever it is given.\<close>

definition returning :: "jsval \<Rightarrow> jsval \<Rightarrow> exn option" where
  "returning a b = None"

text \<open>
  The Basic scheme of HTTP authentication (RFC 7617), for comparison with the header
  the code sets; nothing in \<^verbatim>\<open>lib/WPRequest.js\<close> computes it. The credentials are
  the user name, a colon and the password, encoded in base64 (RFC 4648: three bytes
  become four characters of the alphabet, the last group padded with \<^verbatim>\<open>=\<close>), behind
  the name of the scheme.
\<close>

definition base64_alphabet :: string where
  "base64_alphabet = ''ABCDEFGHIJKLMNOPQRSTUVWXYZabcdefghijklmnopqrstuvwxyz0123456789+/''"

definition sextet :: "nat \<Rightarrow> char" where
  "sextet n = base64_alphabet ! (n mod 64)"

fun base64 :: "nat list \<Rightarrow> string" where
  "base64 [] = []"
| "base64 [a] = [sextet (a div 4), sextet ((a mod 4) * 16), CHR ''='', CHR ''='']"
| "base64 [a, b] =
     [sextet (a div 4), sextet ((a mod 4) * 16 + b div 16), sextet ((b mod 16) * 4), CHR ''='']"
| "base64 (a # b # c # rest) =
     [sextet (a div 4), sextet ((a mod 4) * 16 + b div 16),
      sextet ((b mod 16) * 4 + c div 64), sextet (c mod 64)] @ base64 rest"


text \<open>The same instance under other credentials.\<close>

definition with_credentials :: "jsval \<Rightarrow> jsval \<Rightarrow> 'a wprequest_scheme \<Rightarrow> 'a wprequest_scheme" where
  "with_credentials u p this = this\<lparr>options := (options this)\<lparr>username := u, password := p\<rparr>\<rparr>"

section \<open>Method support and the shape of an invocation\<close>

lemma toLowerCase_verb_name: "toLowerCase (verb_name v) = verb_name v"
  by (cases v) (simp_all add: toLowerCase_def toLowerChar_def)

lemma checkMethodSupport_verb:
  "checkMethodSupport (verb_name v) this =
     (if verb_name v \<in> set (supportedMethods this) then Inr True
      else Inl (Error (''Unsupported method; supported methods are: '' @
                       join '', '' (supportedMethods this))))"
  by (simp add: checkMethodSupport_def toLowerCase_verb_name)

lemmas check_get = checkMethodSupport_verb [of Get, simplified]
lemmas check_post = checkMethodSupport_verb [of Post, simplified]
lemmas check_put = checkMethodSupport_verb [of Put, simplified]
lemmas check_patch = checkMethodSupport_verb [of Patch, simplified]
lemmas check_delete = checkMethodSupport_verb [of Delete, simplified]
lemmas check_head = checkMethodSupport_verb [of Head, simplified]

lemma invoke_unsupported:
  assumes "verb_name v \<notin> set (supportedMethods (obj w))"
  shows "invoke v uri d cb w =
           (Inl (Error (''Unsupported method; supported methods are: '' @
                        join '', '' (supportedMethods (obj w)))), w)"
  using assms
  by (cases v)
     (simp_all add: get_def post_def put_def patch_def delete_def head_def
        check_get check_post check_put check_patch check_delete check_head)

lemma invoke_supported:
  assumes "verb_name v \<in> set (supportedMethods (obj w))" and "v \<noteq> Patch"
  shows "\<exists>req. invoke v uri d cb w =
           (Inr (RPromise \<lparr>submitted = req,
                           on_end = end_handler (ensureFunction cb)
                                      (if v = Head then returnHeaders else returnBody)\<rparr>),
            w\<lparr>sent := sent w @ [req]\<rparr>)"
  using assms
  by (cases v)
     (simp_all add: get_def post_def put_def delete_def head_def invokeAndPromisify_def Let_def
        check_get check_post check_put check_delete check_head)

lemma patch_supported:
  assumes "''patch'' \<in> set (supportedMethods (obj w))"
  shows "patch cb w = (Inr RUndefined, w)"
  using assms by (simp add: patch_def check_patch)

lemma get_prop_defined:
  assumes "get_prop result name = Inr x"
  shows "\<exists>y. get_prop result name' = Inr y"
  using assms by (cases result) simp_all

lemma end_handler_response:
  assumes "transform result = Inr x" and "get_prop result ''error'' = Inr re"
  shows "end_handler (ensureFunction cb) transform err result =
           (let settled = (if truthy err then Rejected err
                           else if truthy re then Rejected re
                           else Resolved x)
            in case cb of
                 NoCallback \<Rightarrow> ([settled], None)
               | Fn f \<Rightarrow>
                   (case f err x of
                      None \<Rightarrow> ([Called err x, settled], None)
                    | Some e \<Rightarrow> ([Called err x], Some e)))"
  using assms
  by (simp add: end_handler_def ensureFunction_def noop_def Let_def
           split: callback.split option.split)

lemma completion_supported:
  assumes "verb_name v \<in> set (supportedMethods (obj w))" and "v \<noteq> Patch"
  shows "completion (invoke v uri d cb w) err result =
           Some (end_handler (ensureFunction cb)
                   (if v = Head then returnHeaders else returnBody) err result)"
proof -
  from invoke_supported [OF assms] obtain req where
    "invoke v uri d cb w =
       (Inr (RPromise \<lparr>submitted = req,
                       on_end = end_handler (ensureFunction cb)
                                  (if v = Head then returnHeaders else returnBody)\<rparr>),
        w\<lparr>sent := sent w @ [req]\<rparr>)" ..
  then show ?thesis by (simp add: completion_def)
qed

lemma calls_end_handler_response:
  assumes "transform result = Inr x" and "get_prop result ''error'' = Inr re"
  shows "calls (fst (end_handler (ensureFunction (Fn f)) transform err result)) = [(err, x)]"
  by (simp add: end_handler_response [where transform = transform, OF assms] Let_def
        split: option.split)

section \<open>Success\<close>

text \<open>
  C1. For every successful answer of the transport to get, post, put, delete or head,
  the second argument of the callback (when one was given) and the value the promise
  resolves with are the same value \<open>x\<close>: the \<^verbatim>\<open>body\<close> field of the response, and
  for head its \<^verbatim>\<open>headers\<close> field. The promise is resolved after the callback has
  returned; a callback that throws leaves it unsettled.
\<close>
theorem callback_and_promise_agree_on_success:
  assumes "v \<noteq> Patch"
    and "verb_name v \<in> set (supportedMethods (obj w))"
    and "successful err result"
    and "get_prop result (if v = Head then ''headers'' else ''body'') = Inr x"
  shows "completion (invoke v uri d cb w) err result =
           Some (case cb of
                   NoCallback \<Rightarrow> ([Resolved x], None)
                 | Fn f \<Rightarrow>
                     (case f err x of
                        None \<Rightarrow> ([Called err x, Resolved x], None)
                      | Some e \<Rightarrow> ([Called err x], Some e)))"
proof -
  from assms(3) obtain re where re: "get_prop result ''error'' = Inr re"
    and ok: "\<not> truthy err" "\<not> truthy re"
    by (auto simp: successful_def split: sum.splits)
  have tr: "(if v = Head then returnHeaders else returnBody) result = Inr x"
    using assms(4) by (cases "v = Head") (simp_all add: returnHeaders_def returnBody_def)
  show ?thesis
    using ok
    by (simp add: Let_def completion_supported [OF assms(2) assms(1)]
          end_handler_response
            [where transform = "if v = Head then returnHeaders else returnBody", OF tr re])
qed


theorem callback_and_promise_agree_on_success_witness:
  "completion
     (invoke Get generateRequestUri JUndefined (Fn returning)
        \<lparr>obj = WPRequest (Some wp_json), sent = []\<rparr>)
     JNull (JObj [(''body'', JStr ''posts''), (''headers'', JObj [])]) =
   Some ([Called JNull (JStr ''posts''), Resolved (JStr ''posts'')], None)"
  using callback_and_promise_agree_on_success
          [of Get "\<lparr>obj = WPRequest (Some wp_json), sent = []\<rparr>" JNull
              "JObj [(''body'', JStr ''posts''), (''headers'', JObj [])]" "JStr ''posts''"
              generateRequestUri JUndefined "Fn returning"]
  by (simp add: WPRequest_def successful_def returning_def)

section \<open>Transport errors\<close>

text \<open>
  An error reported through \<^verbatim>\<open>err\<close>, together with a response, reaches the
  callback and then the promise, as it is.
\<close>

lemma err_reaches_callback_and_promise:
  assumes "v \<noteq> Patch"
    and "verb_name v \<in> set (supportedMethods (obj w))"
    and "truthy err"
    and "get_prop result (if v = Head then ''headers'' else ''body'') = Inr x"
  shows "completion (invoke v uri d cb w) err result =
           Some (case cb of
                   NoCallback \<Rightarrow> ([Rejected err], None)
                 | Fn f \<Rightarrow>
                     (case f err x of
                        None \<Rightarrow> ([Called err x, Rejected err], None)
                      | Some e \<Rightarrow> ([Called err x], Some e)))"
proof -
  from get_prop_defined [OF assms(4), of "''error''"] obtain re where
    re: "get_prop result ''error'' = Inr re" ..
  have tr: "(if v = Head then returnHeaders else returnBody) result = Inr x"
    using assms(4) by (cases "v = Head") (simp_all add: returnHeaders_def returnBody_def)
  show ?thesis
    using assms(3)
    by (simp add: Let_def completion_supported [OF assms(2) assms(1)]
          end_handler_response
            [where transform = "if v = Head then returnHeaders else returnBody", OF tr re])
qed

text \<open>
  When the transport hands over no response at all, reading the field of
  \<^verbatim>\<open>undefined\<close> throws before the callback is called or the promise settled.
\<close>

lemma no_response_throws:
  assumes "v \<noteq> Patch"
    and "verb_name v \<in> set (supportedMethods (obj w))"
  shows "completion (invoke v uri d cb w) err JUndefined =
           Some ([], Some (TypeError (if v = Head then ''headers'' else ''body'')))"
  by (simp add: completion_supported [OF assms(2) assms(1)] end_handler_def
        returnHeaders_def returnBody_def)

text \<open>
  C2. An error of the transport should reach the callback's first argument and the
  promise's rejection alike. For a response flagged through \<^verbatim>\<open>result.error\<close> with
  \<^verbatim>\<open>err\<close> being \<^verbatim>\<open>null\<close>, the code calls the callback with \<^verbatim>\<open>null\<close> as its
  first argument and then rejects the promise with \<^verbatim>\<open>result.error\<close>: evaluated
  here for a get answered by a 404.
\<close>
theorem response_error_reaches_promise_only:
  "completion
     (get generateRequestUri (Fn returning) \<lparr>obj = WPRequest (Some wp_json), sent = []\<rparr>)
     JNull
     (JObj [(''body'', JStr ''not found''), (''headers'', JObj []),
            (''error'', JStr ''HTTP 404'')]) =
   Some ([Called JNull (JStr ''not found''), Rejected (JStr ''HTTP 404'')], None)"
  by (simp add: completion_def get_def check_get WPRequest_def invokeAndPromisify_def
        end_handler_def ensureFunction_def returnBody_def returning_def Let_def)

section \<open>Unsupported methods\<close>

text \<open>
  C3. Invoking a verb method throws if and only if the lowercased name of the verb is
  not in \<^verbatim>\<open>_supportedMethods\<close>. The throw is the result of the call itself: no
  promise is returned, the state is as before (so no request was submitted), and the
  error's message lists the permitted methods. The check lowercases its argument, so
  two spellings of a method that differ in case only are treated alike.
\<close>
theorem unsupported_method_throws:
  "((\<exists>e. fst (invoke v uri d cb w) = Inl e) \<longleftrightarrow>
      toLowerCase (verb_name v) \<notin> set (supportedMethods (obj w))) \<and>
   (toLowerCase (verb_name v) \<notin> set (supportedMethods (obj w)) \<longrightarrow>
      invoke v uri d cb w =
        (Inl (Error (''Unsupported method; supported methods are: '' @
                     join '', '' (supportedMethods (obj w)))), w)) \<and>
   ((\<exists>e. checkMethodSupport m (obj w) = Inl e) \<longleftrightarrow>
      toLowerCase m \<notin> set (supportedMethods (obj w))) \<and>
   (toLowerCase m = toLowerCase m' \<longrightarrow>
      checkMethodSupport m (obj w) = checkMethodSupport m' (obj w))"
proof (intro conjI)
  show "(\<exists>e. fst (invoke v uri d cb w) = Inl e) \<longleftrightarrow>
          toLowerCase (verb_name v) \<notin> set (supportedMethods (obj w))"
  proof (cases "verb_name v \<in> set (supportedMethods (obj w))")
    case True
    show ?thesis
    proof (cases "v = Patch")
      case True
      with \<open>verb_name v \<in> set (supportedMethods (obj w))\<close> show ?thesis
        by (simp add: patch_supported toLowerCase_verb_name [of Patch, simplified])
    next
      case False
      from invoke_supported [OF True False, of uri d cb] True show ?thesis
        by (auto simp: toLowerCase_verb_name)
    qed
  next
    case False
    then show ?thesis
      by (simp add: invoke_unsupported toLowerCase_verb_name)
  qed
next
  show "toLowerCase (verb_name v) \<notin> set (supportedMethods (obj w)) \<longrightarrow>
          invoke v uri d cb w =
            (Inl (Error (''Unsupported method; supported methods are: '' @
                         join '', '' (supportedMethods (obj w)))), w)"
    by (simp add: invoke_unsupported toLowerCase_verb_name)
next
  show "(\<exists>e. checkMethodSupport m (obj w) = Inl e) \<longleftrightarrow>
          toLowerCase m \<notin> set (supportedMethods (obj w))"
    by (simp add: checkMethodSupport_def)
next
  show "toLowerCase m = toLowerCase m' \<longrightarrow>
          checkMethodSupport m (obj w) = checkMethodSupport m' (obj w)"
    by (simp add: checkMethodSupport_def)
qed

theorem unsupported_method_throws_witness:
  "toLowerCase (verb_name Post) \<notin> set (supportedMethods (TaxonomiesRequest (Some wp_json))) \<and>
   invoke Post taxonomies_generateRequestUri JUndefined (Fn returning)
       \<lparr>obj = TaxonomiesRequest (Some wp_json), sent = []\<rparr> =
     (Inl (Error ''Unsupported method; supported methods are: get, head''),
      \<lparr>obj = TaxonomiesRequest (Some wp_json), sent = []\<rparr>) \<and>
   toLowerCase ''GET'' = toLowerCase ''get'' \<and>
   checkMethodSupport ''GET'' (TaxonomiesRequest (Some wp_json)) = Inr True"
  using unsupported_method_throws
          [of Post taxonomies_generateRequestUri JUndefined "Fn returning"
              "\<lparr>obj = TaxonomiesRequest (Some wp_json), sent = []\<rparr>" "''GET''" "''get''"]
  by (simp add: TaxonomiesRequest_def toLowerCase_def toLowerChar_def checkMethodSupport_def)

section \<open>The promise and the callback\<close>

text \<open>
  C4, as the claim has it, includes patch: with \<^verbatim>\<open>patch\<close> permitted, as on a plain
  \<^verbatim>\<open>WPRequest\<close>, the method returns \<^verbatim>\<open>undefined\<close> rather than a promise, and
  no answer of the transport ever reaches the callback.
\<close>
theorem patch_returns_no_promise:
  "''patch'' \<in> set (supportedMethods (WPRequest (Some wp_json))) \<and>
   fst (invoke Patch generateRequestUri JUndefined (Fn returning)
          \<lparr>obj = WPRequest (Some wp_json), sent = []\<rparr>) = Inr RUndefined \<and>
   completion (invoke Patch generateRequestUri JUndefined (Fn returning)
          \<lparr>obj = WPRequest (Some wp_json), sent = []\<rparr>) JNull
          (JObj [(''body'', JStr ''posts''), (''headers'', JObj [])]) = None"
  by (simp add: WPRequest_def patch_def check_patch completion_def)

text \<open>
  C4, amended. Each of get, post, put, delete and head, invoked with its verb
  permitted, returns a promise and submits the promise's request. Once the transport
  answers with a response, a callback that was given is invoked exactly once; its
  second argument is the transformed result, and its first is \<^verbatim>\<open>err\<close> whenever
  \<^verbatim>\<open>err\<close> reports an error or the answer is successful.
\<close>

theorem verbs_return_promise_and_call_back:
  assumes "v \<noteq> Patch"
    and "verb_name v \<in> set (supportedMethods (obj w))"
    and "get_prop result (if v = Head then ''headers'' else ''body'') = Inr x"
  shows "\<exists>p evs thrown.
           invoke v uri d (Fn f) w = (Inr (RPromise p), w\<lparr>sent := sent w @ [submitted p]\<rparr>) \<and>
           on_end p err result = (evs, thrown) \<and>
           map snd (calls evs) = [x] \<and>
           (truthy err \<or> successful err result \<longrightarrow> map fst (calls evs) = [err])"
proof -
  let ?t = "if v = Head then returnHeaders else returnBody"
  from invoke_supported [OF assms(2) assms(1), of uri d "Fn f"] obtain req where
    inv: "invoke v uri d (Fn f) w =
            (Inr (RPromise \<lparr>submitted = req, on_end = end_handler (ensureFunction (Fn f)) ?t\<rparr>),
             w\<lparr>sent := sent w @ [req]\<rparr>)" ..
  have tr: "?t result = Inr x"
    using assms(3) by (cases "v = Head") (simp_all add: returnHeaders_def returnBody_def)
  from get_prop_defined [OF assms(3), of "''error''"] obtain re where
    re: "get_prop result ''error'' = Inr re" ..
  have "calls (fst (end_handler (ensureFunction (Fn f)) ?t err result)) = [(err, x)]"
    by (rule calls_end_handler_response [where transform = ?t, OF tr re])
  with inv show ?thesis
    by (intro exI [where x = "\<lparr>submitted = req, on_end = end_handler (ensureFunction (Fn f)) ?t\<rparr>"]
              exI [where x = "fst (end_handler (ensureFunction (Fn f)) ?t err result)"]
              exI [where x = "snd (end_handler (ensureFunction (Fn f)) ?t err result)"])
       simp
qed

theorem verbs_return_promise_and_call_back_witness:
  "\<exists>p evs thrown.
     invoke Head generateRequestUri JUndefined (Fn returning)
         \<lparr>obj = WPRequest (Some wp_json), sent = []\<rparr> =
       (Inr (RPromise p), \<lparr>obj = WPRequest (Some wp_json), sent = [submitted p]\<rparr>) \<and>
     on_end p (JStr ''timeout'') (JObj [(''headers'', JStr ''h'')]) = (evs, thrown) \<and>
     map snd (calls evs) = [JStr ''h''] \<and>
     truthy (JStr ''timeout'') \<and>
     map fst (calls evs) = [JStr ''timeout'']"
  using verbs_return_promise_and_call_back
          [of Head "\<lparr>obj = WPRequest (Some wp_json), sent = []\<rparr>"
              "JObj [(''headers'', JStr ''h'')]" "JStr ''h''"
              generateRequestUri JUndefined returning "JStr ''timeout''"]
  by (simp add: WPRequest_def)

section \<open>patch\<close>

text \<open>
  C5. With \<^verbatim>\<open>patch\<close> among the permitted verbs, invoking patch, with or without a
  callback, returns without a promise, submits no request and leaves the instance as
  it was; nothing is left waiting for the transport.
\<close>
theorem patch_is_a_no_op:
  assumes "''patch'' \<in> set (supportedMethods (obj w))"
  shows "fst (patch cb w) = Inr RUndefined \<and>
         sent (snd (patch cb w)) = sent w \<and>
         obj (snd (patch cb w)) = obj w \<and>
         completion (patch cb w) err result = None"
  using assms by (simp add: patch_supported completion_def)

theorem patch_is_a_no_op_witness:
  "''patch'' \<in> set (supportedMethods (obj \<lparr>obj = WPRequest None, sent = []\<rparr>)) \<and>
   patch (Fn returning) \<lparr>obj = WPRequest None, sent = []\<rparr> =
     (Inr RUndefined, \<lparr>obj = WPRequest None, sent = []\<rparr>)"
  using patch_is_a_no_op [of "\<lparr>obj = WPRequest None, sent = []\<rparr>" "Fn returning" JNull JNull]
  by (simp add: WPRequest_def prod_eq_iff)


section \<open>Request URIs of the endpoint handlers\<close>

text \<open>
  C6. For a taxonomies instance with the endpoint \<^verbatim>\<open>/wp-json/\<close>, the generated URI
  is \<^verbatim>\<open>/wp-json/taxonomies\<close> at first, \<^verbatim>\<open>/wp-json/taxonomies/my-tax\<close> after
  \<^verbatim>\<open>id('my-tax')\<close>, \<^verbatim>\<open>/wp-json/taxonomies/my-tax/terms\<close> after \<^verbatim>\<open>terms()\<close>
  and \<^verbatim>\<open>/wp-json/taxonomies/my-tax/terms/1337\<close> after a second \<^verbatim>\<open>id(1337)\<close>.
  On any instance, a field that is \<^verbatim>\<open>null\<close> contributes no segment.
\<close>
theorem taxonomies_uri:
  "taxonomies_generateRequestUri ((TaxonomiesRequest None)\<lparr>options := wp_json\<rparr>) =
     JStr ''/wp-json/taxonomies'' \<and>
   taxonomies_generateRequestUri
     (taxonomies_id (JStr ''my-tax'') ((TaxonomiesRequest None)\<lparr>options := wp_json\<rparr>)) =
     JStr ''/wp-json/taxonomies/my-tax'' \<and>
   taxonomies_generateRequestUri
     (taxonomies_terms
        (taxonomies_id (JStr ''my-tax'') ((TaxonomiesRequest None)\<lparr>options := wp_json\<rparr>))) =
     JStr ''/wp-json/taxonomies/my-tax/terms'' \<and>
   taxonomies_generateRequestUri
     (taxonomies_id (JNum 1337)
        (taxonomies_terms
           (taxonomies_id (JStr ''my-tax'') ((TaxonomiesRequest None)\<lparr>options := wp_json\<rparr>)))) =
     JStr ''/wp-json/taxonomies/my-tax/terms/1337'' \<and>
   taxonomies_generateRequestUri (this\<lparr>t_id := JNull, t_action := JNull\<rparr>) =
     JStr (js_to_string (endpoint (options this)) @ ''taxonomies'') \<and>
   taxonomies_generateRequestUri (this\<lparr>t_id := JNull\<rparr>) =
     JStr (js_to_string (endpoint (options this)) @ ''taxonomies'' @
           (if t_action this \<noteq> JNull
            then ''/'' @ js_to_string (t_action this) @
                 (if t_actionId this \<noteq> JNull then ''/'' @ js_to_string (t_actionId this)
                  else [])
            else [])) \<and>
   taxonomies_generateRequestUri (this\<lparr>t_action := JNull\<rparr>) =
     JStr (js_to_string (endpoint (options this)) @ ''taxonomies'' @
           (if t_id this \<noteq> JNull then ''/'' @ js_to_string (t_id this) else [])) \<and>
   taxonomies_generateRequestUri (this\<lparr>t_actionId := JNull\<rparr>) =
     JStr (js_to_string (endpoint (options this)) @ ''taxonomies'' @
           (if t_id this \<noteq> JNull then ''/'' @ js_to_string (t_id this) else []) @
           (if t_action this \<noteq> JNull then ''/'' @ js_to_string (t_action this) else []))"
  by (simp add: taxonomies_generateRequestUri_def taxonomies_id_def taxonomies_terms_def
        TaxonomiesRequest_def wp_json_def digits.simps)

text \<open>
  C7. For a users instance with the endpoint \<^verbatim>\<open>/wp-json/\<close>, the generated URI is
  \<^verbatim>\<open>/wp-json/users\<close> at first, \<^verbatim>\<open>/wp-json/users/me\<close> after \<^verbatim>\<open>me()\<close> and
  \<^verbatim>\<open>/wp-json/users/1337\<close> after \<^verbatim>\<open>id(1337)\<close>. The shortcut and an id exclude
  each other: of the two, only the one set last shows in the URI.
\<close>
theorem users_uri:
  "users_generateRequestUri ((UsersRequest None)\<lparr>options := wp_json\<rparr>) =
     JStr ''/wp-json/users'' \<and>
   users_generateRequestUri (users_me ((UsersRequest None)\<lparr>options := wp_json\<rparr>)) =
     JStr ''/wp-json/users/me'' \<and>
   users_generateRequestUri (users_id (JNum 1337) ((UsersRequest None)\<lparr>options := wp_json\<rparr>)) =
     JStr ''/wp-json/users/1337'' \<and>
   users_generateRequestUri (users_id v (users_me this)) =
     users_generateRequestUri (users_id v this) \<and>
   users_generateRequestUri (users_me (users_id v this)) =
     users_generateRequestUri (users_me this)"
  by (simp add: users_generateRequestUri_def users_id_def users_me_def
        UsersRequest_def wp_json_def digits.simps)

section \<open>Order and agreement of callback and promise\<close>

text \<open>
  Whatever the transport answers, the callback is invoked at most once and before
  anything else happens: a settlement of the promise can only follow it.
\<close>

lemma callback_comes_first:
  assumes "end_handler (ensureFunction cb) transform err result = (evs, thrown)"
  shows "calls (tl evs) = []"
    and "cb = Fn f \<Longrightarrow> evs \<noteq> [] \<Longrightarrow> \<exists>x. hd evs = Called err x \<and> transform result = Inr x"
  using assms
  by (auto simp: end_handler_def ensureFunction_def noop_def
        split: sum.splits callback.splits option.splits if_splits)

text \<open>
  C8. The callback is to be invoked before the promise settles, both with the same
  data on success and the same error on failure. For a head answered by a response
  flagged through \<^verbatim>\<open>result.error\<close>, with no \<^verbatim>\<open>err\<close>, the callback does come
  first, but it is told of no error (its first argument is the \<^verbatim>\<open>undefined\<close> it
  was handed), and the promise is then rejected with \<^verbatim>\<open>result.error\<close>.
\<close>
theorem callback_misses_response_error:
  "completion
     (head generateRequestUri (Fn returning) \<lparr>obj = WPRequest (Some wp_json), sent = []\<rparr>)
     JUndefined
     (JObj [(''body'', JObj []), (''headers'', JStr ''h''), (''error'', JStr ''HTTP 500'')]) =
   Some ([Called JUndefined (JStr ''h''), Rejected (JStr ''HTTP 500'')], None)"
  by (simp add: completion_def head_def check_head WPRequest_def invokeAndPromisify_def
        end_handler_def ensureFunction_def returnHeaders_def returning_def Let_def)

section \<open>Credentials\<close>

text \<open>The encoding on the examples of RFC 4648.\<close>

lemma base64_examples:
  "base64 (map of_char ''f'') = ''Zg==''"
  "base64 (map of_char ''fo'') = ''Zm8=''"
  "base64 (map of_char ''foo'') = ''Zm9v''"
  "base64 (map of_char ''foobar'') = ''Zm9vYmFy''"
  by (simp_all add: sextet_def base64_alphabet_def)




text \<open>None of the three \<^verbatim>\<open>generateRequestUri\<close> methods reads the credentials.\<close>

lemma generateRequestUri_credentials:
  "generateRequestUri (with_credentials u p this) = generateRequestUri this"
  by (simp add: generateRequestUri_def with_credentials_def)

lemma taxonomies_generateRequestUri_credentials:
  "taxonomies_generateRequestUri (with_credentials u p this) = taxonomies_generateRequestUri this"
  by (simp add: taxonomies_generateRequestUri_def with_credentials_def)

lemma users_generateRequestUri_credentials:
  "users_generateRequestUri (with_credentials u p this) = users_generateRequestUri this"
  by (simp add: users_generateRequestUri_def with_credentials_def)

text \<open>
  C10. Changing the configured user name and password of an instance changes nothing
  about what get and head submit, provided the instance's \<^verbatim>\<open>generateRequestUri\<close>
  does not read them (the base one and those of the endpoint handlers do not): the
  request has the generated URI, no header and no payload.
\<close>
theorem get_head_ignore_credentials:
  assumes "v = Get \<or> v = Head"
    and "uri (with_credentials u p (obj w)) = uri (obj w)"
  shows "sent (snd (invoke v uri d cb (w\<lparr>obj := with_credentials u p (obj w)\<rparr>))) =
           sent (snd (invoke v uri d cb w)) \<and>
         sent (snd (invoke v uri d cb w)) =
           (if verb_name v \<in> set (supportedMethods (obj w))
            then sent w @ [\<lparr>http_method = (if v = Get then ''GET'' else ''HEAD''),
                             url = uri (obj w), headers = [], payload = None\<rparr>]
            else sent w)"
  using assms
  by (auto simp: get_def head_def check_get check_head invokeAndPromisify_def Let_def
        with_credentials_def agent_get_def agent_head_def agent_request_def)

theorem get_head_ignore_credentials_witness:
  "generateRequestUri
     (with_credentials (JStr ''admin'') (JStr ''s3cret'') (WPRequest (Some wp_json))) =
     generateRequestUri (WPRequest (Some wp_json)) \<and>
   sent (snd (invoke Get generateRequestUri JUndefined NoCallback
                \<lparr>obj = with_credentials (JStr ''admin'') (JStr ''s3cret'') (WPRequest (Some wp_json)),
                   sent = []\<rparr>)) =
     [\<lparr>http_method = ''GET'', url = JStr ''/wp-json/'', headers = [], payload = None\<rparr>]"
  using get_head_ignore_credentials
          [of Get generateRequestUri "JStr ''admin''" "JStr ''s3cret''"
              "\<lparr>obj = WPRequest (Some wp_json), sent = []\<rparr>" JUndefined NoCallback]
  by (simp add: WPRequest_def wp_json_def generateRequestUri_def with_credentials_def)

end
